theory Spec2Isabelle
  imports Complex_Main
begin

section \<open>Data model\<close>

text \<open>
  The program is a browser application: a JSON file of announcements is read, every
  announcement is cleaned, the cleaned records are sent in batches of ten to an external
  scoring service, the answers are merged back by identifier, and the (filtered) records are
  exported as CSV.

  JavaScript strings are modelled as \<^typ>\<open>string\<close>: lists of code units in the range
  0..255 (Latin-1). JavaScript numbers are modelled as exact rationals together with
  \<open>NaN\<close>; the rounding error of double arithmetic is outside the model.
\<close>

datatype jsnum = Num rat | NaN

text \<open>The three values of \<open>status\<close> in \<open>types.ts\<close>: waiting, analysed, analysis failed.\<close>

datatype status = Aguardando_IA | Analisado | Falha_na_Analise

text \<open>
  \<open>RawRecord\<close> of \<open>types.ts\<close>; every field is optional. The nested paths
  \<open>_id.$oid\<close> and \<open>author.name\<close> are flattened into \<open>oid\<close> and \<open>author_name\<close>: the
  code reads them only through \<open>item._id?.$oid\<close> and \<open>item.author?.name\<close>.
\<close>

record RawRecord =
  oid :: "string option"
  title :: "string option"
  community :: "string option"
  author_name :: "string option"
  description :: "string option"

text \<open>
  What \<open>JSON.parse\<close> returns for the input file, seen through the declared type
  \<open>RawRecord[]\<close>: the code itself tests for a non-array value and for elements that are
  not objects, so these are kept; an object is a \<open>RawRecord\<close>.
\<close>

datatype json_value =
    JNull
  | JBool bool
  | JNumber rat
  | JString string
  | JArray "json_value list"
  | JObject RawRecord

text \<open>
  \<open>AnalysisResult\<close> with the extra \<open>id\<close> of \<open>ApiResponseItem\<close>. The fields are optional
  here, because the value comes out of \<open>JSON.parse\<close> and nothing in the code checks that
  a field is present.
\<close>

record ApiResponseItem =
  id' :: "string option"
  clareza :: "jsnum option"
  empatia :: "jsnum option"
  coerencia :: "jsnum option"
  formalidade :: "jsnum option"
  eficacia :: "jsnum option"
  linguistica :: "jsnum option"
  comentario :: "string option"

text \<open>
  \<open>ParsedRecord\<close> of \<open>processFile\<close>:
  \<open>Omit<CleanedRecord, keyof AnalysisResult | 'QualityScore' | 'status'>\<close>.
  The field \<open>rid\<close> is the source's \<open>_id\<close>.
\<close>

record ParsedRecord =
  rid :: string
  title :: string
  community :: string
  author :: string
  text_clean :: string
  word_count :: nat

text \<open>
  \<open>CleanedRecord\<close> of \<open>types.ts\<close>: a \<open>ParsedRecord\<close> with a status, the optional
  analysis fields and the optional \<open>QualityScore\<close>. The field \<open>id'\<close> is the \<open>id\<close>
  property that the spread \<open>...result\<close> copies from the response item.
\<close>

record CleanedRecord = ParsedRecord +
  status :: status
  QualityScore :: "jsnum option"
  id' :: "string option"
  clareza :: "jsnum option"
  empatia :: "jsnum option"
  coerencia :: "jsnum option"
  formalidade :: "jsnum option"
  eficacia :: "jsnum option"
  linguistica :: "jsnum option"
  comentario :: "string option"

datatype ProcessingStep = idle | cleaning | analyzing | done'

record Progress =
  processed :: nat
  total :: nat

record Filters =
  f_title :: string
  f_community :: string
  f_author :: string

section \<open>Strings\<close>

text \<open>The characters matched by \<open>\s\<close> and removed by \<open>trim()\<close>, within Latin-1.\<close>

definition is_space :: "char \<Rightarrow> bool" where
  "is_space c = (c \<in> set [CHR 0x09, CHR 0x0A, CHR 0x0B, CHR 0x0C, CHR 0x0D, CHR 0x20, CHR 0xA0])"

definition trim :: "string \<Rightarrow> string" where
  "trim s = rev (dropWhile is_space (rev (dropWhile is_space s)))"

definition startsWith :: "string \<Rightarrow> string \<Rightarrow> bool" where
  "startsWith s t = (take (length t) s = t)"

text \<open>\<open>s.includes(t)\<close>: \<open>t\<close> occurs in \<open>s\<close> at some position.\<close>

fun includes_str :: "string \<Rightarrow> string \<Rightarrow> bool" where
  "includes_str [] t = (t = [])"
| "includes_str (c # cs) t = (startsWith (c # cs) t \<or> includes_str cs t)"

text \<open>\<open>toLowerCase()\<close> on Latin-1: A-Z and the accented capitals 0xC0-0xDE (not 0xD7).\<close>

definition lower_char :: "char \<Rightarrow> char" where
  "lower_char c =
     (let n = (of_char c :: nat)
      in if (65 \<le> n \<and> n \<le> 90) \<or> (192 \<le> n \<and> n \<le> 222 \<and> n \<noteq> 215)
         then char_of (n + 32) else c)"

definition toLowerCase :: "string \<Rightarrow> string" where
  "toLowerCase s = map lower_char s"

section \<open>The filter effect\<close>

text \<open>
  The \<open>useEffect\<close> on \<open>[filters, cleanedData]\<close>: the value it passes to
  \<open>setDisplayedData\<close>.
\<close>

definition displayed :: "Filters \<Rightarrow> CleanedRecord list \<Rightarrow> CleanedRecord list" where
  "displayed filters cleanedData =
     (let lc_title = toLowerCase (f_title filters);
          lc_community = toLowerCase (f_community filters);
          lc_author = toLowerCase (f_author filters)
      in filter (\<lambda>item.
           includes_str (toLowerCase (title item)) lc_title \<and>
           includes_str (toLowerCase (community item)) lc_community \<and>
           includes_str (toLowerCase (author item)) lc_author) cleanedData)"

section \<open>CSV export\<close>

definition dq :: char where
  "dq = CHR 0x22"

definition LF :: char where
  "LF = CHR 0x0A"

definition CR :: char where
  "CR = CHR 0x0D"

text \<open>\<open>xs.join(sep)\<close>\<close>

fun join :: "string \<Rightarrow> string list \<Rightarrow> string" where
  "join sep [] = []"
| "join sep [x] = x"
| "join sep (x # y # ys) = x @ sep @ join sep (y # ys)"

definition headers :: "string list" where
  "headers =
     [''title'', ''community'', ''author'', ''text_clean'', ''word_count'',
      ''clareza'', ''empatia'', ''coerencia'', ''formalidade'', ''eficacia'', ''linguistica'',
      ''QualityScore'', ''comentario'', ''status'']"

text \<open>The string values of the type \<open>status\<close> (\<open>0xE1\<close> is a-acute).\<close>

definition status_string :: "status \<Rightarrow> string" where
  "status_string s =
     (case s of
        Aguardando_IA \<Rightarrow> ''Aguardando IA...''
      | Analisado \<Rightarrow> ''Analisado''
      | Falha_na_Analise \<Rightarrow> ''Falha na An'' @ [CHR 0xE1] @ ''lise'')"

text \<open>A property value of a record: a string or a number.\<close>

datatype js_value = VString string | VNumber jsnum

text \<open>\<open>row[header as keyof CleanedRecord]\<close>; \<open>None\<close> is \<open>undefined\<close>.\<close>

definition get_prop :: "CleanedRecord \<Rightarrow> string \<Rightarrow> js_value option" where
  "get_prop row header =
     (if header = ''title'' then Some (VString (title row))
      else if header = ''community'' then Some (VString (community row))
      else if header = ''author'' then Some (VString (author row))
      else if header = ''text_clean'' then Some (VString (text_clean row))
      else if header = ''word_count'' then Some (VNumber (Num (of_nat (word_count row))))
      else if header = ''clareza'' then map_option VNumber (clareza row)
      else if header = ''empatia'' then map_option VNumber (empatia row)
      else if header = ''coerencia'' then map_option VNumber (coerencia row)
      else if header = ''formalidade'' then map_option VNumber (formalidade row)
      else if header = ''eficacia'' then map_option VNumber (eficacia row)
      else if header = ''linguistica'' then map_option VNumber (linguistica row)
      else if header = ''QualityScore'' then map_option VNumber (QualityScore row)
      else if header = ''comentario'' then map_option VString (comentario row)
      else if header = ''status'' then Some (VString (status_string (status row)))
      else if header = ''_id'' then Some (VString (rid row))
      else if header = ''id'' then map_option VString (id' row)
      else None)"

text \<open>
  \<open>'' + value\<close>. The decimal text of a number is the platform's; it is the parameter
  \<open>toStr\<close>.
\<close>

definition to_string :: "(jsnum \<Rightarrow> string) \<Rightarrow> js_value \<Rightarrow> string" where
  "to_string toStr v = (case v of VString s \<Rightarrow> s | VNumber n \<Rightarrow> toStr n)"

text \<open>\<open>replace(/"/g, '""')\<close>\<close>

definition escape_quotes :: "string \<Rightarrow> string" where
  "escape_quotes s = concat (map (\<lambda>c. if c = dq then [dq, dq] else [c]) s)"

definition convertToCsv :: "(jsnum \<Rightarrow> string) \<Rightarrow> CleanedRecord list \<Rightarrow> string" where
  "convertToCsv toStr data =
     (if length data = 0 then []
      else
        let csvRows = [join '','' headers] @
              map (\<lambda>row.
                let values = map (\<lambda>header.
                      let value = (case get_prop row header of None \<Rightarrow> VString [] | Some v \<Rightarrow> v);
                          escaped = escape_quotes (to_string toStr value)
                      in [dq] @ escaped @ [dq]) headers
                in join '','' values) data
        in join [LF] csvRows)"

text \<open>
  Standard quoted-CSV reading (RFC 4180, with LF or CRLF between rows), against which the
  export is checked: a field that starts with a double quote runs to the next single
  double quote, two double quotes inside it stand for one; other fields run to the next
  comma or line break. The arguments are the reading mode, the field read so far and the
  fields of the row read so far.
\<close>

datatype csv_mode = FieldStart | Unquoted | Quoted | QuoteSeen

fun csv_rows :: "csv_mode \<Rightarrow> string \<Rightarrow> string list \<Rightarrow> string \<Rightarrow> string list list" where
  "csv_rows m f r [] = (if m = FieldStart \<and> f = [] \<and> r = [] then [] else [r @ [f]])"
| "csv_rows m f r (c # cs) =
     (if m = Quoted then
        (if c = dq then csv_rows QuoteSeen f r cs else csv_rows Quoted (f @ [c]) r cs)
      else if m = QuoteSeen \<and> c = dq then csv_rows Quoted (f @ [dq]) r cs
      else if c = CHR '','' then csv_rows FieldStart [] (r @ [f]) cs
      else if c = LF then (r @ [f]) # csv_rows FieldStart [] [] cs
      else if c = CR \<and> take 1 cs = [LF] then csv_rows m f r cs
      else if m = FieldStart \<and> c = dq then csv_rows Quoted f r cs
      else csv_rows Unquoted (f @ [c]) r cs)"

definition csv_parse :: "string \<Rightarrow> string list list" where
  "csv_parse s = csv_rows FieldStart [] [] s"

text \<open>
  What the export is compared with: the header row, the string value of each column of a
  record (an absent field gives the empty string), and a field wrapped in double quotes with
  the double quotes inside it doubled.
\<close>

definition column_names :: "string list" where
  "column_names =
     [''title'', ''community'', ''author'', ''text_clean'', ''word_count'',
      ''clareza'', ''empatia'', ''coerencia'', ''formalidade'', ''eficacia'', ''linguistica'',
      ''QualityScore'', ''comentario'', ''status'']"

definition opt_number :: "(jsnum \<Rightarrow> string) \<Rightarrow> jsnum option \<Rightarrow> string" where
  "opt_number toStr v = (case v of None \<Rightarrow> [] | Some n \<Rightarrow> toStr n)"

definition opt_text :: "string option \<Rightarrow> string" where
  "opt_text v = (case v of None \<Rightarrow> [] | Some s \<Rightarrow> s)"

definition field_strings :: "(jsnum \<Rightarrow> string) \<Rightarrow> CleanedRecord \<Rightarrow> string list" where
  "field_strings toStr row =
     [title row, community row, author row, text_clean row,
      toStr (Num (of_nat (word_count row))),
      opt_number toStr (clareza row), opt_number toStr (empatia row),
      opt_number toStr (coerencia row), opt_number toStr (formalidade row),
      opt_number toStr (eficacia row), opt_number toStr (linguistica row),
      opt_number toStr (QualityScore row), opt_text (comentario row),
      status_string (status row)]"

definition quoted :: "string \<Rightarrow> string" where
  "quoted v = [dq] @ concat (map (\<lambda>c. if c = dq then [dq, dq] else [c]) v) @ [dq]"

section \<open>Ingestion and normalisation (\<open>processFile\<close>)\<close>

text \<open>\<open>replace(/\s+/g, ' ')\<close>: every maximal run of whitespace becomes one space.\<close>

function collapse_spaces :: "string \<Rightarrow> string" where
  "collapse_spaces [] = []"
| "collapse_spaces (c # cs) =
     (if is_space c then CHR '' '' # collapse_spaces (dropWhile is_space cs)
      else c # collapse_spaces cs)"
  by pat_completeness auto
termination
  by (relation "measure length") (auto simp: le_imp_less_Suc length_dropWhile_le)

text \<open>\<open>replace(/\xa0/g, ' ')\<close>\<close>

definition replace_nbsp :: "string \<Rightarrow> string" where
  "replace_nbsp s = map (\<lambda>c. if c = CHR 0xA0 then CHR '' '' else c) s"

text \<open>
  \<open>cleanHtmlAndNormalize\<close>. The parameter \<open>render\<close> is the browser's part: assigning the
  string to \<open>innerHTML\<close> of a fresh element and reading
  \<open>textContent || innerText || ''\<close>; it is \<open>None\<close> when that throws, and the
  \<open>catch\<close> then returns the empty string.
\<close>

definition cleanHtmlAndNormalize :: "(string \<Rightarrow> string option) \<Rightarrow> string \<Rightarrow> string" where
  "cleanHtmlAndNormalize render htmlString =
     (case render htmlString of
        None \<Rightarrow> []
      | Some text \<Rightarrow> trim (replace_nbsp (collapse_spaces text)))"

text \<open>\<open>s.split(' ')\<close>\<close>

fun split_space :: "string \<Rightarrow> string list" where
  "split_space [] = [[]]"
| "split_space (c # cs) =
     (if c = CHR '' '' then [] # split_space cs
      else (case split_space cs of [] \<Rightarrow> [[c]] | p # ps \<Rightarrow> (c # p) # ps))"

text \<open>\<open>replace(/}\s*{/g, '},{')\<close>\<close>

function replace_brace_gap :: "string \<Rightarrow> string" where
  "replace_brace_gap [] = []"
| "replace_brace_gap (c # cs) =
     (if c = CHR ''}'' \<and> startsWith (dropWhile is_space cs) ''{''
      then ''},{'' @ replace_brace_gap (tl (dropWhile is_space cs))
      else c # replace_brace_gap cs)"
  by pat_completeness auto
termination
proof (relation "measure length")
  fix c :: char and cs :: string
  have "length (tl (dropWhile is_space cs)) \<le> length cs"
    using length_dropWhile_le [of is_space cs] by simp
  then show "(tl (dropWhile is_space cs), c # cs) \<in> measure length"
    by simp
qed simp_all

text \<open>\<open>replace(/,\s*]$/, ']')\<close>: the first comma followed only by whitespace and a final
  closing bracket.\<close>

fun replace_dangling_comma :: "string \<Rightarrow> string" where
  "replace_dangling_comma [] = []"
| "replace_dangling_comma (c # cs) =
     (if c = CHR '','' \<and> dropWhile is_space cs = '']'' then '']''
      else c # replace_dangling_comma cs)"

text \<open>\<open>s.lastIndexOf(c)\<close>, \<open>-1\<close> when \<open>c\<close> does not occur.\<close>

definition lastIndexOf :: "string \<Rightarrow> char \<Rightarrow> int" where
  "lastIndexOf s c =
     (if c \<in> set s then int (length s) - 1 - int (length (takeWhile (\<lambda>x. x \<noteq> c) (rev s)))
      else - 1)"

text \<open>\<open>s.substring(0, n)\<close>\<close>

definition substring0 :: "string \<Rightarrow> int \<Rightarrow> string" where
  "substring0 s n = take (nat n) s"

text \<open>The repair of the inner \<open>try\<close> block: the text handed to the second \<open>JSON.parse\<close>.\<close>

definition repair :: "string \<Rightarrow> string" where
  "repair content =
     (let fixedContent = trim content;
          fixedContent =
            (if startsWith fixedContent ''{''
             then ''['' @ replace_brace_gap fixedContent @ '']''
             else if startsWith fixedContent ''[''
             then (let lastBrace = lastIndexOf fixedContent (CHR ''}'');
                       lastBracket = lastIndexOf fixedContent (CHR '']'')
                   in if lastBrace > lastBracket
                      then substring0 fixedContent (lastBrace + 1) @ '']''
                      else if lastBracket > - 1
                      then substring0 fixedContent (lastBracket + 1)
                      else fixedContent)
             else fixedContent)
      in replace_dangling_comma fixedContent)"

text \<open>
  The two nested \<open>try\<close> blocks around \<open>JSON.parse\<close>. The parameter \<open>JSON_parse\<close> is
  the platform's parser (\<open>None\<close> when it throws). The result is the list of the texts
  handed to the parser, in order, and the parsed value (\<open>None\<close> when the second attempt
  throws as well).
\<close>

definition parse_content ::
  "(string \<Rightarrow> json_value option) \<Rightarrow> string \<Rightarrow> string list \<times> json_value option" where
  "parse_content JSON_parse content =
     (case JSON_parse content of
        Some data \<Rightarrow> ([content], Some data)
      | None \<Rightarrow>
          (let fixedContent = repair content
           in ([content, fixedContent], JSON_parse fixedContent)))"

text \<open>The selected file: the reader fails (\<open>onerror\<close>) or delivers the text.\<close>

datatype input_file = Unreadable | Readable string

text \<open>The messages of the rejections (\<open>0xE3\<close>, \<open>0xE9\<close>, \<open>0xE1\<close>, \<open>0xED\<close> are accented
  letters).\<close>

definition msg_syntax :: string where
  "msg_syntax = ''Erro de sintaxe: O arquivo n'' @ [CHR 0xE3] @ ''o '' @ [CHR 0xE9]
                 @ '' um JSON v'' @ [CHR 0xE1] @ ''lido.''"

definition msg_not_array :: string where
  "msg_not_array = ''O JSON fornecido n'' @ [CHR 0xE3] @ ''o '' @ [CHR 0xE9]
                 @ '' um array. O arquivo deve conter um array de objetos.''"

definition msg_unreadable :: string where
  "msg_unreadable = ''N'' @ [CHR 0xE3] @ ''o foi poss'' @ [CHR 0xED] @ ''vel ler o arquivo.''"

text \<open>\<open>typeof item !== 'object' || item === null\<close> is false: objects and arrays.\<close>

fun is_object :: "json_value \<Rightarrow> bool" where
  "is_object (JObject r) = True"
| "is_object (JArray xs) = True"
| "is_object v = False"

text \<open>The fields of an element as a \<open>RawRecord\<close>; an array has none of them.\<close>

fun raw_fields :: "json_value \<Rightarrow> RawRecord" where
  "raw_fields (JObject r) = r"
| "raw_fields v = \<lparr>oid = None, title = None, community = None, author_name = None,
                    description = None\<rparr>"

text \<open>\<open>x || ''\<close> for an optional string.\<close>

definition or_empty :: "string option \<Rightarrow> string" where
  "or_empty x = (case x of None \<Rightarrow> [] | Some s \<Rightarrow> s)"

text \<open>
  The callback of \<open>data.map\<close>; \<open>None\<close> is the \<open>null\<close> it returns. The parameter
  \<open>fresh\<close> gives the text of \<open>`${Date.now()}-${Math.random()}`\<close> for the element at a
  position.
\<close>

definition to_parsed ::
  "(string \<Rightarrow> string option) \<Rightarrow> (nat \<Rightarrow> string) \<Rightarrow> nat \<times> json_value \<Rightarrow> ParsedRecord option" where
  "to_parsed render fresh p =
     (let i = fst p; item = snd p
      in if \<not> is_object item then None
         else
           let raw = raw_fields item;
               descriptionRaw = or_empty (description raw);
               cleanText = cleanHtmlAndNormalize render descriptionRaw
           in Some \<lparr>rid = (case oid raw of None \<Rightarrow> fresh i
                                | Some s \<Rightarrow> if s \<noteq> [] then s else fresh i),
                    title = or_empty (RawRecord.title raw),
                    community = or_empty (RawRecord.community raw),
                    author = or_empty (author_name raw),
                    text_clean = cleanText,
                    word_count = (if cleanText \<noteq> [] then length (split_space cleanText) else 0)\<rparr>)"

definition processFile ::
  "(string \<Rightarrow> json_value option) \<Rightarrow> (string \<Rightarrow> string option) \<Rightarrow> (nat \<Rightarrow> string)
     \<Rightarrow> input_file \<Rightarrow> string + ParsedRecord list" where
  "processFile JSON_parse render fresh f =
     (case f of
        Unreadable \<Rightarrow> Inl msg_unreadable
      | Readable content \<Rightarrow>
          (case snd (parse_content JSON_parse content) of
             None \<Rightarrow> Inl msg_syntax
           | Some data \<Rightarrow>
               (case data of
                  JArray items \<Rightarrow>
                    Inr (map the (filter (\<lambda>record. record \<noteq> None)
                           (map (to_parsed render fresh) (enumerate 0 items))))
                | _ \<Rightarrow> Inl (''Erro ao processar o arquivo: '' @ msg_not_array))))"

section \<open>Scoring one batch (\<open>analyzeQualityBatch\<close>)\<close>

text \<open>\<open>Object.entries(weights)\<close>, in the order of the object literal.\<close>

definition weights :: "(string \<times> rat) list" where
  "weights =
     [(''clareza'', 20 / 100), (''empatia'', 20 / 100), (''coerencia'', 20 / 100),
      (''formalidade'', 15 / 100), (''eficacia'', 15 / 100), (''linguistica'', 10 / 100)]"

text \<open>\<open>result[key as keyof typeof weights]\<close>; \<open>None\<close> is \<open>undefined\<close>.\<close>

definition result_prop :: "ApiResponseItem \<Rightarrow> string \<Rightarrow> jsnum option" where
  "result_prop result key =
     (if key = ''clareza'' then ApiResponseItem.clareza result
      else if key = ''empatia'' then ApiResponseItem.empatia result
      else if key = ''coerencia'' then ApiResponseItem.coerencia result
      else if key = ''formalidade'' then ApiResponseItem.formalidade result
      else if key = ''eficacia'' then ApiResponseItem.eficacia result
      else if key = ''linguistica'' then ApiResponseItem.linguistica result
      else None)"

text \<open>\<open>v * weight\<close> and \<open>acc + v\<close>; \<open>undefined\<close> and \<open>NaN\<close> give \<open>NaN\<close>.\<close>

definition js_times :: "jsnum option \<Rightarrow> rat \<Rightarrow> jsnum" where
  "js_times v weight = (case v of Some (Num x) \<Rightarrow> Num (x * weight) | _ \<Rightarrow> NaN)"

definition js_plus :: "jsnum \<Rightarrow> jsnum \<Rightarrow> jsnum" where
  "js_plus a b = (case a of Num x \<Rightarrow> (case b of Num y \<Rightarrow> Num (x + y) | NaN \<Rightarrow> NaN) | NaN \<Rightarrow> NaN)"

text \<open>
  \<open>parseFloat(x.toFixed(2))\<close>: \<open>toFixed\<close> takes the sign off, picks the integer
  \<open>n\<close> with \<open>n / 100\<close> nearest to the absolute value, the larger one of two, and puts
  the sign back.
\<close>

definition toFixed2 :: "jsnum \<Rightarrow> jsnum" where
  "toFixed2 v =
     (case v of
        NaN \<Rightarrow> NaN
      | Num x \<Rightarrow> Num (sgn x * of_int \<lfloor>\<bar>x\<bar> * 100 + 1 / 2\<rfloor> / 100))"

definition qualityScore :: "ApiResponseItem \<Rightarrow> jsnum" where
  "qualityScore result =
     foldl (\<lambda>acc kw. js_plus acc (js_times (result_prop result (fst kw)) (snd kw)))
       (Num 0) weights"

text \<open>The outcome of \<open>ai.models.generateContent\<close>: it rejects, or there is a response
  text.\<close>

datatype outcome = Rejected | Response string

type_synonym request = "(string \<times> string) list"

text \<open>\<open>recordsToAnalyze\<close>: the payload of the request, identifier and truncated text.\<close>

definition recordsToAnalyze :: "ParsedRecord list \<Rightarrow> request" where
  "recordsToAnalyze batch = map (\<lambda>r. (rid r, take 2000 (text_clean r))) batch"

text \<open>\<open>{ ...record, status: 'Falha na Analise', QualityScore: 0 }\<close>\<close>

definition failed :: "ParsedRecord \<Rightarrow> CleanedRecord" where
  "failed record =
     \<lparr>rid = rid record, title = title record, community = community record,
      author = author record, text_clean = text_clean record, word_count = word_count record,
      status = Falha_na_Analise, QualityScore = Some (Num 0), id' = None,
      clareza = None, empatia = None, coerencia = None, formalidade = None,
      eficacia = None, linguistica = None, comentario = None\<rparr>"

text \<open>\<open>{ ...record, ...result, QualityScore: ..., status: 'Analisado' }\<close>\<close>

definition scored :: "ParsedRecord \<Rightarrow> ApiResponseItem \<Rightarrow> CleanedRecord" where
  "scored record result =
     \<lparr>rid = rid record, title = title record, community = community record,
      author = author record, text_clean = text_clean record, word_count = word_count record,
      status = Analisado, QualityScore = Some (toFixed2 (qualityScore result)),
      id' = ApiResponseItem.id' result,
      clareza = ApiResponseItem.clareza result, empatia = ApiResponseItem.empatia result,
      coerencia = ApiResponseItem.coerencia result,
      formalidade = ApiResponseItem.formalidade result,
      eficacia = ApiResponseItem.eficacia result,
      linguistica = ApiResponseItem.linguistica result,
      comentario = ApiResponseItem.comentario result\<rparr>"

text \<open>\<open>new Map(analysisResults.map(res => [res.id, res]))\<close>: a later item replaces an
  earlier one with the same key.\<close>

definition resultMap :: "ApiResponseItem list \<Rightarrow> (string option \<rightharpoonup> ApiResponseItem)" where
  "resultMap analysisResults =
     foldl (\<lambda>m res. m(ApiResponseItem.id' res \<mapsto> res)) Map.empty analysisResults"

text \<open>
  \<open>analyzeQualityBatch\<close>. The parameter \<open>parse\<close> is \<open>JSON.parse\<close> read at the type
  \<open>ApiResponseItem[]\<close> (\<open>None\<close> when it throws); \<open>generateContent\<close> is the external
  call. Both failures end in the \<open>catch\<close> block.
\<close>

definition analyzeQualityBatch ::
  "(string \<Rightarrow> ApiResponseItem list option) \<Rightarrow> (request \<Rightarrow> outcome)
     \<Rightarrow> ParsedRecord list \<Rightarrow> CleanedRecord list" where
  "analyzeQualityBatch parse generateContent batch =
     (case generateContent (recordsToAnalyze batch) of
        Rejected \<Rightarrow> map failed batch
      | Response text \<Rightarrow>
          (case parse (trim text) of
             None \<Rightarrow> map failed batch
           | Some analysisResults \<Rightarrow>
               map (\<lambda>record.
                 case resultMap analysisResults (Some (rid record)) of
                   Some result \<Rightarrow> scored record result
                 | None \<Rightarrow> failed record) batch))"

section \<open>The run (\<open>handleProcessClick\<close>)\<close>

record AppState =
  inputFile :: "input_file option"
  cleanedData :: "CleanedRecord list"
  displayedData :: "CleanedRecord list"
  processingStep :: ProcessingStep
  progress :: Progress
  error :: "string option"
  filters :: Filters

text \<open>
  What a run does besides changing the state, in program order: an external scoring call
  with its payload, an assignment \<open>newData[index] = ...\<close>, a new value of
  \<open>cleanedData\<close>, a pause of so many milliseconds.
\<close>

datatype effect =
    GenerateContent request
  | Assign nat
  | SetCleanedData "CleanedRecord list"
  | Delay nat

definition BATCH_SIZE :: nat where
  "BATCH_SIZE = 10"

text \<open>\<open>xs.slice(i, j)\<close> for \<open>0 \<le> i \<le> j\<close>\<close>

definition slice :: "'a list \<Rightarrow> nat \<Rightarrow> nat \<Rightarrow> 'a list" where
  "slice xs i j = take (j - i) (drop i xs)"
















text \<open>
  What a run is compared with: the batch with a given number, the number of batches, the
  record that \<open>analyzeQualityBatch\<close> returns for a position of the collection when it
  is given the batch of that position, and the three kinds of entries of the list of
  effects of a run.
\<close>

definition batch_at :: "ParsedRecord list \<Rightarrow> nat \<Rightarrow> ParsedRecord list" where
  "batch_at rs j = slice rs (j * BATCH_SIZE) (j * BATCH_SIZE + BATCH_SIZE)"

definition batch_count :: "ParsedRecord list \<Rightarrow> nat" where
  "batch_count rs = (length rs + BATCH_SIZE - 1) div BATCH_SIZE"

definition settled ::
  "(string \<Rightarrow> ApiResponseItem list option) \<Rightarrow> (nat \<Rightarrow> request \<Rightarrow> outcome)
     \<Rightarrow> ParsedRecord list \<Rightarrow> nat \<Rightarrow> CleanedRecord" where
  "settled parse ai rs k =
     analyzeQualityBatch parse (ai (k div BATCH_SIZE)) (batch_at rs (k div BATCH_SIZE))
       ! (k mod BATCH_SIZE)"

fun calls_of :: "effect list \<Rightarrow> request list" where
  "calls_of [] = []"
| "calls_of (GenerateContent payload # es) = payload # calls_of es"
| "calls_of (e # es) = calls_of es"

fun assigned_of :: "effect list \<Rightarrow> nat list" where
  "assigned_of [] = []"
| "assigned_of (Assign index # es) = index # assigned_of es"
| "assigned_of (e # es) = assigned_of es"

fun snapshots_of :: "effect list \<Rightarrow> CleanedRecord list list" where
  "snapshots_of [] = []"
| "snapshots_of (SetCleanedData d # es) = d # snapshots_of es"
| "snapshots_of (e # es) = snapshots_of es"

text \<open>
  From one value of the collection to the next: the length stays, and a record that has
  left the waiting status stays as it is.
\<close>

definition keeps_settled :: "CleanedRecord list \<Rightarrow> CleanedRecord list \<Rightarrow> bool" where
  "keeps_settled d d' =
     (length d' = length d \<and> (\<forall>k < length d. status (d ! k) \<noteq> Aguardando_IA \<longrightarrow> d' ! k = d ! k))"

text \<open>The external call of a batch fails: it rejects, or its response text does not
  parse.\<close>

definition call_fails :: "(string \<Rightarrow> ApiResponseItem list option) \<Rightarrow> outcome \<Rightarrow> bool" where
  "call_fails parse out =
     (case out of Rejected \<Rightarrow> True | Response text \<Rightarrow> parse (trim text) = None)"

section \<open>Example values\<close>

text \<open>A scored record whose comment holds double quotes, and a number printer for it.\<close>

definition example_record :: CleanedRecord where
  "example_record =
     \<lparr>rid = ''r1'', title = ''A'', community = ''north'', author = ''Ana'',
      text_clean = ''Hello world'', word_count = 2, status = Analisado,
      QualityScore = Some (Num (147 / 20)), id' = Some ''r1'',
      clareza = Some (Num 2), empatia = Some (Num 2), coerencia = Some (Num 2),
      formalidade = Some (Num 2), eficacia = Some (Num 2), linguistica = None,
      comentario = Some (''He said '' @ [dq] @ ''ok'' @ [dq])\<rparr>"

definition example_toStr :: "jsnum \<Rightarrow> string" where
  "example_toStr n = (if n = Num 2 then ''2'' else if n = Num (147 / 20) then ''7.35'' else ''NaN'')"







text \<open>
  Input texts: two bare objects back to back, the array the repair makes of them, one
  object with a trailing comma and its repair, the one-announcement array with markup in
  its description, an array with elements of every kind, and the empty array.
\<close>

definition dquote :: "string \<Rightarrow> string" where
  "dquote s = [dq] @ s @ [dq]"

definition text_two_objects :: string where
  "text_two_objects =
     ''{'' @ dquote ''title'' @ '':'' @ dquote ''A'' @ ''}{'' @ dquote ''title'' @ '':''
       @ dquote ''B'' @ ''}''"

definition text_two_objects_array :: string where
  "text_two_objects_array =
     ''[{'' @ dquote ''title'' @ '':'' @ dquote ''A'' @ ''},{'' @ dquote ''title'' @ '':''
       @ dquote ''B'' @ ''}]''"

definition text_trailing_comma :: string where
  "text_trailing_comma = ''{'' @ dquote ''title'' @ '':'' @ dquote ''A'' @ ''},''"

definition text_one_object_array :: string where
  "text_one_object_array = ''[{'' @ dquote ''title'' @ '':'' @ dquote ''A'' @ ''}]''"

definition html_hello :: string where
  "html_hello = ''<p>Hello&nbsp;world</p>''"

definition text_markup :: string where
  "text_markup =
     ''[{'' @ dquote ''title'' @ '':'' @ dquote ''A'' @ '','' @ dquote ''description'' @ '':''
       @ dquote html_hello @ ''}]''"

definition text_mixed :: string where
  "text_mixed =
     ''[{'' @ dquote ''title'' @ '':'' @ dquote ''A'' @ ''},null,'' @ dquote ''x''
       @ '',[1],3,true,{'' @ dquote ''title'' @ '':'' @ dquote ''B'' @ ''}]''"

definition raw_titled :: "string \<Rightarrow> RawRecord" where
  "raw_titled t =
     \<lparr>oid = None, RawRecord.title = Some t, RawRecord.community = None, author_name = None,
      description = None\<rparr>"

text \<open>
  A parser that agrees with \<open>JSON.parse\<close> on the texts above: the texts that are JSON
  give their value, the others (among them the two bare objects and the object with the
  trailing comma) are rejected.
\<close>

definition example_JSON_parse :: "string \<Rightarrow> json_value option" where
  "example_JSON_parse s =
     (if s = ''[]'' then Some (JArray [])
      else if s = text_two_objects_array
        then Some (JArray [JObject (raw_titled ''A''), JObject (raw_titled ''B'')])
      else if s = text_one_object_array then Some (JArray [JObject (raw_titled ''A'')])
      else if s = text_markup
        then Some (JArray [JObject ((raw_titled ''A'')\<lparr>description := Some html_hello\<rparr>)])
      else if s = text_mixed
        then Some (JArray [JObject (raw_titled ''A''), JNull, JString ''x'',
                           JArray [JNumber 1], JNumber 3, JBool True, JObject (raw_titled ''B'')])
      else None)"

text \<open>
  The text content of markup: the paragraph above gives its two words with a non-breaking
  space between them, a text without markup gives itself.
\<close>

definition example_render :: "string \<Rightarrow> string option" where
  "example_render s =
     (if s = html_hello then Some (''Hello'' @ [CHR 0xA0] @ ''world'') else Some s)"

definition example_fresh :: "nat \<Rightarrow> string" where
  "example_fresh i = ''1700000000000-0.'' @ replicate (Suc i) (CHR ''7'')"




section \<open>Properties of the filter\<close>

lemma includes_str_Nil: "includes_str s []"
  by (induction s) (simp_all add: startsWith_def)

text \<open>
  Claim C10. With the three filter strings empty the filter keeps every record: the
  displayed collection, which is also the exported one, is the whole collection in its
  original order.
\<close>

theorem displayed_empty_filter:
  "displayed \<lparr>f_title = [], f_community = [], f_author = []\<rparr> records = records
   \<and> convertToCsv toStr (displayed \<lparr>f_title = [], f_community = [], f_author = []\<rparr> records)
       = convertToCsv toStr records"
  by (simp add: displayed_def toLowerCase_def includes_str_Nil)

section \<open>Properties of the CSV export\<close>

lemma join_Cons: "join sep (x # xs) = x @ concat (map (\<lambda>y. sep @ y) xs)"
  by (induction xs arbitrary: x) simp_all

lemma quoted_escape: "quoted v = [dq] @ escape_quotes v @ [dq]"
  by (simp add: quoted_def escape_quotes_def)

lemma csv_quoted_field:
  "csv_rows Quoted f r (escape_quotes v @ dq # rest) = csv_rows QuoteSeen (f @ v) r rest"
  by (induction v arbitrary: f) (simp_all add: escape_quotes_def)

lemma dq_neq: "dq \<noteq> CHR '',''" "dq \<noteq> LF" "dq \<noteq> CR" "LF \<noteq> CHR '',''" "LF \<noteq> CR"
  by (simp_all add: dq_def LF_def CR_def)

lemma csv_start_quoted:
  "csv_rows FieldStart [] r (quoted v @ rest) = csv_rows QuoteSeen v r rest"
  using csv_quoted_field [of "[]" r v rest] by (simp add: quoted_escape dq_neq)

lemma csv_fields:
  "csv_rows FieldStart [] r (join '','' (map quoted (v # vs)) @ rest)
     = csv_rows QuoteSeen (last (v # vs)) (r @ butlast (v # vs)) rest"
proof (induction vs arbitrary: v r)
  case Nil
  show ?case using csv_start_quoted [of r v rest] by simp
next
  case (Cons w ws)
  have "csv_rows FieldStart [] r (join '','' (map quoted (v # w # ws)) @ rest)
        = csv_rows FieldStart [] r (quoted v @ (CHR '','' # (join '','' (map quoted (w # ws)) @ rest)))"
    by simp
  also have "\<dots> = csv_rows QuoteSeen v r (CHR '','' # (join '','' (map quoted (w # ws)) @ rest))"
    by (rule csv_start_quoted)
  also have "\<dots> = csv_rows FieldStart [] (r @ [v]) (join '','' (map quoted (w # ws)) @ rest)"
    by (simp add: dq_neq[symmetric])
  also have "\<dots> = csv_rows QuoteSeen (last (w # ws)) ((r @ [v]) @ butlast (w # ws)) rest"
    by (rule Cons.IH)
  finally show ?case by simp
qed

lemma csv_row_end:
  assumes "vs \<noteq> []"
  shows "csv_rows FieldStart [] [] (join '','' (map quoted vs)) = [vs]"
proof -
  from assms obtain v ws where vs: "vs = v # ws" by (cases vs) auto
  show ?thesis using csv_fields [of "[]" v ws "[]"] unfolding vs by simp
qed

lemma csv_row_LF:
  assumes "vs \<noteq> []"
  shows "csv_rows FieldStart [] [] (join '','' (map quoted vs) @ LF # rest)
           = vs # csv_rows FieldStart [] [] rest"
proof -
  from assms obtain v ws where vs: "vs = v # ws" by (cases vs) auto
  show ?thesis using csv_fields [of "[]" v ws "LF # rest"] unfolding vs
    by (simp add: dq_neq dq_neq[symmetric])
qed

lemma csv_rows_all:
  "\<forall>vs \<in> set rows. vs \<noteq> [] \<Longrightarrow> rows \<noteq> [] \<Longrightarrow>
   csv_rows FieldStart [] [] (join [LF] (map (\<lambda>vs. join '','' (map quoted vs)) rows)) = rows"
proof (induction rows)
  case Nil
  then show ?case by simp
next
  case (Cons vs rows)
  show ?case
  proof (cases rows)
    case Nil
    then show ?thesis using Cons.prems csv_row_end [of vs] by simp
  next
    case (Cons ws rows')
    then show ?thesis using Cons.prems Cons.IH csv_row_LF [of vs] by simp
  qed
qed

lemma csv_header_line:
  "csv_rows FieldStart [] [] (join '','' headers @ LF # rest)
     = column_names # csv_rows FieldStart [] [] rest"
  by (simp add: headers_def column_names_def dq_def LF_def CR_def)

lemma value_number:
  "to_string toStr (case map_option VNumber x of None \<Rightarrow> VString [] | Some v \<Rightarrow> v)
     = opt_number toStr x"
  by (cases x) (simp_all add: to_string_def opt_number_def)

lemma value_text:
  "to_string toStr (case map_option VString x of None \<Rightarrow> VString [] | Some v \<Rightarrow> v)
     = opt_text x"
  by (cases x) (simp_all add: to_string_def opt_text_def)

lemma value_string: "to_string toStr (VString s) = s"
  by (simp add: to_string_def)

lemma value_num: "to_string toStr (VNumber n) = toStr n"
  by (simp add: to_string_def)

lemma row_values:
  "map (\<lambda>header. dq # escape_quotes (to_string toStr
           (case get_prop row header of None \<Rightarrow> VString [] | Some v \<Rightarrow> v)) @ [dq]) headers
   = map quoted (field_strings toStr row)"
  by (simp add: headers_def get_prop_def field_strings_def quoted_escape
        value_number value_text value_string value_num del: case_map_option)

lemma headers_column_names: "headers = column_names"
  by (simp add: headers_def column_names_def)

lemma convertToCsv_rows:
  assumes "data \<noteq> []"
  shows "convertToCsv toStr data =
           join [LF] (join '','' column_names #
                      map (\<lambda>row. join '','' (map quoted (field_strings toStr row))) data)"
proof -
  have "convertToCsv toStr data =
           join [LF] (join '','' headers #
                      map (\<lambda>row. join '','' (map quoted (field_strings toStr row))) data)"
    using assms by (simp add: convertToCsv_def Let_def row_values)
  then show ?thesis
    by (simp only: headers_column_names)
qed

lemma csv_parse_convertToCsv:
  assumes "data \<noteq> []"
  shows "csv_parse (convertToCsv toStr data) = column_names # map (field_strings toStr) data"
proof -
  let ?rows = "map (field_strings toStr) data"
  have ne: "\<forall>vs \<in> set ?rows. vs \<noteq> []"
    by (simp add: field_strings_def)
  have rows_ne: "?rows \<noteq> []"
    using assms by simp
  have "convertToCsv toStr data =
          join [LF] (join '','' column_names # map (\<lambda>vs. join '','' (map quoted vs)) ?rows)"
    using convertToCsv_rows [OF assms, of toStr] by (simp add: comp_def)
  also have "\<dots> = join '','' headers @ LF # join [LF] (map (\<lambda>vs. join '','' (map quoted vs)) ?rows)"
    using rows_ne by (cases ?rows) (simp_all add: headers_column_names)
  finally have "csv_parse (convertToCsv toStr data) = column_names # csv_rows FieldStart [] []
          (join [LF] (map (\<lambda>vs. join '','' (map quoted vs)) ?rows))"
    unfolding csv_parse_def by (simp only: csv_header_line)
  also have "csv_rows FieldStart [] [] (join [LF] (map (\<lambda>vs. join '','' (map quoted vs)) ?rows)) = ?rows"
    using csv_rows_all [OF ne rows_ne] .
  finally show ?thesis .
qed

text \<open>
  Claim C8. The export of an empty sequence is the empty text. The export of a non-empty
  sequence is the header row followed by one row per record, in the fixed column order,
  each field wrapped in double quotes with its double quotes doubled; reading that text
  back by the standard quoted-CSV rules gives the column names and, for every record, the
  original string value of every field (the empty string for an absent field).
\<close>

theorem convertToCsv_roundtrip:
  "convertToCsv toStr [] = []
   \<and> (data \<noteq> [] \<longrightarrow>
        convertToCsv toStr data =
          join [LF] (join '','' column_names #
                     map (\<lambda>row. join '','' (map quoted (field_strings toStr row))) data)
        \<and> csv_parse (convertToCsv toStr data) = column_names # map (field_strings toStr) data)"
  using convertToCsv_rows [of data toStr] csv_parse_convertToCsv [of data toStr]
  by (simp add: convertToCsv_def)

theorem convertToCsv_roundtrip_witness:
  "[example_record] \<noteq> []
   \<and> convertToCsv example_toStr [example_record]
      = ''title,community,author,text_clean,word_count,clareza,empatia,coerencia,formalidade,eficacia,linguistica,QualityScore,comentario,status''
        @ [LF] @ concat (map (\<lambda>v. [dq] @ v @ [dq, CHR '','']) [''A'', ''north'', ''Ana'', ''Hello world'', ''2'', ''2'', ''2'', ''2'', ''2'', ''2'', '''', ''7.35''])
        @ [dq] @ ''He said '' @ [dq, dq] @ ''ok'' @ [dq, dq, dq, CHR '','', dq] @ ''Analisado'' @ [dq]
   \<and> csv_parse (convertToCsv example_toStr [example_record])
      = [[''title'', ''community'', ''author'', ''text_clean'', ''word_count'', ''clareza'',
          ''empatia'', ''coerencia'', ''formalidade'', ''eficacia'', ''linguistica'',
          ''QualityScore'', ''comentario'', ''status''],
         [''A'', ''north'', ''Ana'', ''Hello world'', ''2'', ''2'', ''2'', ''2'', ''2'', ''2'', '''',
          ''7.35'', ''He said '' @ [dq] @ ''ok'' @ [dq], ''Analisado'']]"
proof -
  have ne: "[example_record] \<noteq> []"
    by simp
  have fs: "field_strings example_toStr example_record =
      [''A'', ''north'', ''Ana'', ''Hello world'', ''2'', ''2'', ''2'', ''2'', ''2'', ''2'', '''',
          ''7.35'', ''He said '' @ [dq] @ ''ok'' @ [dq], ''Analisado'']"
    by (simp add: field_strings_def example_record_def example_toStr_def opt_number_def
          opt_text_def status_string_def)
  from convertToCsv_roundtrip [of example_toStr "[example_record]"] ne
  have A: "convertToCsv example_toStr [example_record] =
          join [LF] (join '','' column_names #
                     map (\<lambda>row. join '','' (map quoted (field_strings example_toStr row))) [example_record])"
    and B: "csv_parse (convertToCsv example_toStr [example_record])
          = column_names # map (field_strings example_toStr) [example_record]"
    by blast+
  have A': "convertToCsv example_toStr [example_record]
      = ''title,community,author,text_clean,word_count,clareza,empatia,coerencia,formalidade,eficacia,linguistica,QualityScore,comentario,status''
        @ [LF] @ concat (map (\<lambda>v. [dq] @ v @ [dq, CHR '','']) [''A'', ''north'', ''Ana'', ''Hello world'', ''2'', ''2'', ''2'', ''2'', ''2'', ''2'', '''', ''7.35''])
        @ [dq] @ ''He said '' @ [dq, dq] @ ''ok'' @ [dq, dq, dq, CHR '','', dq] @ ''Analisado'' @ [dq]"
    unfolding A by (simp add: fs column_names_def quoted_def dq_def LF_def)
  have B': "csv_parse (convertToCsv example_toStr [example_record])
      = [[''title'', ''community'', ''author'', ''text_clean'', ''word_count'', ''clareza'',
          ''empatia'', ''coerencia'', ''formalidade'', ''eficacia'', ''linguistica'',
          ''QualityScore'', ''comentario'', ''status''],
         [''A'', ''north'', ''Ana'', ''Hello world'', ''2'', ''2'', ''2'', ''2'', ''2'', ''2'', '''',
          ''7.35'', ''He said '' @ [dq] @ ''ok'' @ [dq], ''Analisado'']]"
    unfolding B by (simp add: fs column_names_def)
  show ?thesis
    using ne A' B' by blast
qed

section \<open>Properties of the scoring of one batch\<close>















section \<open>Properties of the ingestion\<close>





lemma not_space_bracket: "\<not> is_space (CHR '']'')"
  by (simp add: is_space_def)

lemma replace_dangling_comma_wrap:
  assumes "xs \<noteq> []" and "\<not> is_space (last xs)"
  shows "replace_dangling_comma (xs @ '']'')
           = (if last xs = CHR '','' then butlast xs @ '']'' else xs @ '']'')"
  using assms
proof (induction xs)
  case Nil
  then show ?case by simp
next
  case (Cons c cs)
  show ?case
  proof (cases "cs = []")
    case True
    then show ?thesis by (simp add: not_space_bracket)
  next
    case False
    with Cons.prems have ns: "\<not> is_space (last cs)" by simp
    from False have "last cs \<in> set cs" by simp
    with ns have "dropWhile is_space (cs @ '']'') = dropWhile is_space cs @ '']''"
      by (intro dropWhile_append1) auto
    moreover have "dropWhile is_space cs \<noteq> []"
      using ns \<open>last cs \<in> set cs\<close> by (auto simp: dropWhile_eq_Nil_conv)
    ultimately have "dropWhile is_space (cs @ '']'') \<noteq> '']''"
      by (cases "dropWhile is_space cs") auto
    then show ?thesis
      using Cons.IH [OF False ns] False by simp
  qed
qed

lemma replace_brace_gap_last:
  "s \<noteq> [] \<Longrightarrow> replace_brace_gap s \<noteq> [] \<and> last (replace_brace_gap s) = last s"
proof (induction s rule: replace_brace_gap.induct)
  case 1
  then show ?case by simp
next
  case (2 c cs)
  show ?case
  proof (cases "c = CHR ''}'' \<and> startsWith (dropWhile is_space cs) ''{''")
    case True
    then obtain rest where d: "dropWhile is_space cs = CHR ''{'' # rest"
      by (cases "dropWhile is_space cs") (auto simp: startsWith_def)
    have cs: "cs = takeWhile is_space cs @ CHR ''{'' # rest"
      using takeWhile_dropWhile_id [of is_space cs] d by simp
    have lastcs: "last (c # cs) = last (CHR ''{'' # rest)"
      by (subst cs) simp
    show ?thesis
    proof (cases "rest = []")
      case True
      with \<open>c = CHR ''}'' \<and> _\<close> d lastcs show ?thesis by simp
    next
      case False
      then have "replace_brace_gap rest \<noteq> [] \<and> last (replace_brace_gap rest) = last rest"
        using "2.IH"(1) True d by simp
      with True d lastcs False show ?thesis by simp
    qed
  next
    case False
    then have eq: "replace_brace_gap (c # cs) = c # replace_brace_gap cs"
      by auto
    show ?thesis
    proof (cases "cs = []")
      case True
      then show ?thesis unfolding eq by simp
    next
      case nonempty: False
      then have "replace_brace_gap cs \<noteq> [] \<and> last (replace_brace_gap cs) = last cs"
        using "2.IH"(2) False by simp
      with nonempty show ?thesis unfolding eq by simp
    qed
  qed
qed

lemma trim_last_not_space:
  assumes "trim s \<noteq> []"
  shows "\<not> is_space (last (trim s))"
proof -
  let ?d = "dropWhile is_space (rev (dropWhile is_space s))"
  from assms have ne: "?d \<noteq> []" by (simp add: trim_def)
  have "last (trim s) = hd ?d"
    using ne by (simp add: trim_def last_rev)
  with hd_dropWhile [OF ne] show ?thesis by simp
qed

lemma repair_brace:
  assumes "startsWith (trim content) ''{''"
  shows "repair content = replace_dangling_comma (''['' @ replace_brace_gap (trim content) @ '']'')"
    and "repair content
           = (if last (trim content) = CHR '','' 
              then ''['' @ butlast (replace_brace_gap (trim content)) @ '']''
              else ''['' @ replace_brace_gap (trim content) @ '']'')"
proof -
  show r: "repair content = replace_dangling_comma (''['' @ replace_brace_gap (trim content) @ '']'')"
    using assms by (simp add: repair_def Let_def)
  from assms have ne: "trim content \<noteq> []"
    by (auto simp: startsWith_def)
  then have ns: "\<not> is_space (last (trim content))"
    by (rule trim_last_not_space)
  let ?j = "replace_brace_gap (trim content)"
  have j: "?j \<noteq> []" "last ?j = last (trim content)"
    using replace_brace_gap_last [OF ne] by simp_all
  have "replace_dangling_comma ((CHR ''['' # ?j) @ '']'')
          = (if last (CHR ''['' # ?j) = CHR '','' then butlast (CHR ''['' # ?j) @ '']''
             else (CHR ''['' # ?j) @ '']'')"
    using j ns by (intro replace_dangling_comma_wrap) simp_all
  then show "repair content
           = (if last (trim content) = CHR '','' 
              then ''['' @ butlast (replace_brace_gap (trim content)) @ '']''
              else ''['' @ replace_brace_gap (trim content) @ '']'')"
    using j unfolding r by simp
qed

lemma repair_two_objects: "repair text_two_objects = text_two_objects_array"
  by (simp add: repair_def text_two_objects_def text_two_objects_array_def dquote_def dq_def
        trim_def is_space_def startsWith_def Let_def)

text \<open>
  Claim C9, as amended. When strict parsing of the content fails and the trimmed content
  starts with an opening brace, the parser is called exactly once more, on the repaired
  text: the trimmed content with \<open>},{\<close> put at every boundary between a closing and
  an opening brace, wrapped in brackets, and with a comma that ends the content removed.
  The two bare objects of the scenario are repaired to the array of the two objects and,
  the parser rejecting the first text and reading the second, are ingested as two records.
\<close>

theorem repair_joins_bare_objects:
  "(JSON_parse content = None \<longrightarrow> startsWith (trim content) ''{'' \<longrightarrow>
      parse_content JSON_parse content = ([content, repair content], JSON_parse (repair content))
      \<and> repair content
          = (if last (trim content) = CHR '',''
             then ''['' @ butlast (replace_brace_gap (trim content)) @ '']''
             else ''['' @ replace_brace_gap (trim content) @ '']''))
   \<and> repair text_two_objects = text_two_objects_array
   \<and> (JSON_parse text_two_objects = None \<longrightarrow>
      JSON_parse text_two_objects_array
        = Some (JArray [JObject (raw_titled ''A''), JObject (raw_titled ''B'')]) \<longrightarrow>
      (\<exists>rs. processFile JSON_parse render fresh (Readable text_two_objects) = Inr rs
            \<and> length rs = 2 \<and> map title rs = [''A'', ''B'']))"
proof (intro conjI impI)
  assume "JSON_parse content = None"
  then show "parse_content JSON_parse content = ([content, repair content], JSON_parse (repair content))"
    by (simp add: parse_content_def Let_def)
next
  assume "startsWith (trim content) ''{''"
  then show "repair content
          = (if last (trim content) = CHR '',''
             then ''['' @ butlast (replace_brace_gap (trim content)) @ '']''
             else ''['' @ replace_brace_gap (trim content) @ '']'')"
    by (rule repair_brace(2))
next
  show "repair text_two_objects = text_two_objects_array"
    by (rule repair_two_objects)
next
  assume a: "JSON_parse text_two_objects = None"
    and b: "JSON_parse text_two_objects_array
        = Some (JArray [JObject (raw_titled ''A''), JObject (raw_titled ''B'')])"
  have "snd (parse_content JSON_parse text_two_objects)
          = Some (JArray [JObject (raw_titled ''A''), JObject (raw_titled ''B'')])"
    using a b by (simp add: parse_content_def Let_def repair_two_objects)
  then show "\<exists>rs. processFile JSON_parse render fresh (Readable text_two_objects) = Inr rs
            \<and> length rs = 2 \<and> map title rs = [''A'', ''B'']"
    by (simp add: processFile_def to_parsed_def Let_def raw_titled_def or_empty_def)
qed

theorem repair_joins_bare_objects_witness:
  "example_JSON_parse text_two_objects = None
   \<and> startsWith (trim text_two_objects) ''{''
   \<and> example_JSON_parse text_two_objects_array
        = Some (JArray [JObject (raw_titled ''A''), JObject (raw_titled ''B'')])
   \<and> parse_content example_JSON_parse text_two_objects
        = ([text_two_objects, text_two_objects_array],
           Some (JArray [JObject (raw_titled ''A''), JObject (raw_titled ''B'')]))
   \<and> (\<exists>rs. processFile example_JSON_parse example_render example_fresh (Readable text_two_objects)
             = Inr rs \<and> length rs = 2 \<and> map title rs = [''A'', ''B''])"
proof -
  have a: "example_JSON_parse text_two_objects = None"
    by (simp add: example_JSON_parse_def text_two_objects_def text_mixed_def
          text_two_objects_array_def text_one_object_array_def text_markup_def dquote_def)
  have s: "startsWith (trim text_two_objects) ''{''"
    by (simp add: startsWith_def trim_def text_two_objects_def is_space_def dquote_def dq_def)
  have b: "example_JSON_parse text_two_objects_array
        = Some (JArray [JObject (raw_titled ''A''), JObject (raw_titled ''B'')])"
    by (simp add: example_JSON_parse_def text_two_objects_array_def dquote_def)
  note t = repair_joins_bare_objects [of example_JSON_parse text_two_objects example_render
      example_fresh]
  from t a s have p: "parse_content example_JSON_parse text_two_objects
      = ([text_two_objects, repair text_two_objects], example_JSON_parse (repair text_two_objects))"
    by blast
  from t have r: "repair text_two_objects = text_two_objects_array"
    by blast
  from t a b have e: "\<exists>rs. processFile example_JSON_parse example_render example_fresh
      (Readable text_two_objects) = Inr rs \<and> length rs = 2 \<and> map title rs = [''A'', ''B'']"
    by blast
  have p': "parse_content example_JSON_parse text_two_objects
        = ([text_two_objects, text_two_objects_array],
           Some (JArray [JObject (raw_titled ''A''), JObject (raw_titled ''B'')]))"
    using p b unfolding r by simp
  show ?thesis
    using a s b p' e by blast
qed

text \<open>
  The claim C9 as stated fails: for an object followed by a comma the text handed to the
  second parse is not the bracket-wrapped content (which is not JSON) but the array of the
  one object, and one record is ingested.
\<close>

theorem repair_drops_trailing_comma:
  "example_JSON_parse text_trailing_comma = None
   \<and> startsWith (trim text_trailing_comma) ''{''
   \<and> ''['' @ replace_brace_gap (trim text_trailing_comma) @ '']''
       = ''[{'' @ dquote ''title'' @ '':'' @ dquote ''A'' @ ''},]''
   \<and> fst (parse_content example_JSON_parse text_trailing_comma)
       = [text_trailing_comma, ''[{'' @ dquote ''title'' @ '':'' @ dquote ''A'' @ ''}]'']
   \<and> (\<exists>rs. processFile example_JSON_parse example_render example_fresh (Readable text_trailing_comma)
            = Inr rs \<and> length rs = 1)"
  by (simp add: example_JSON_parse_def text_trailing_comma_def text_mixed_def
        text_two_objects_array_def text_one_object_array_def text_markup_def dquote_def dq_def
        parse_content_def repair_def trim_def is_space_def startsWith_def Let_def
        processFile_def to_parsed_def)

subsection \<open>Normalised text and word count\<close>






















section \<open>Properties of the run\<close>





end
